theory Spec2Isabelle
  imports Complex_Main "HOL-Library.Sublist"
begin

section \<open>Python strings\<close>

text \<open>
  A Python \<open>str\<close> is modelled as a \<^typ>\<open>string\<close>, each \<^typ>\<open>char\<close> standing for the code
  point of the same number (0 to 255). The methods below are the ones the script calls,
  written out for that alphabet.
\<close>

definition endswith :: "string \<Rightarrow> string \<Rightarrow> bool" where
  "endswith s suf = (length suf \<le> length s \<and> drop (length s - length suf) s = suf)"

definition removesuffix :: "string \<Rightarrow> string \<Rightarrow> string" where
  "removesuffix s suf =
     (if suf \<noteq> [] \<and> endswith s suf then take (length s - length suf) s else s)"

text \<open>\<open>str.isspace\<close> on one code point below 256: TAB to CR, FS to US, the blank, NEL and
  the no-break space.\<close>

definition isspace :: "char \<Rightarrow> bool" where
  "isspace c = (let n = (of_char c :: nat) in
     (9 \<le> n \<and> n \<le> 13) \<or> (28 \<le> n \<and> n \<le> 32) \<or> n = 133 \<or> n = 160)"

definition strip :: "string \<Rightarrow> string" where
  "strip s = rev (dropWhile isspace (rev (dropWhile isspace s)))"

text \<open>\<open>str.lower\<close>: below 256 the cased capitals are A to Z and the Latin-1 capitals
  (192 to 222 without the multiplication sign 215); each maps to the code point 32 above,
  which is the same character with bit 5 set.\<close>

definition isupper_cp :: "char \<Rightarrow> bool" where
  "isupper_cp c = (let n = (of_char c :: nat) in
     (65 \<le> n \<and> n \<le> 90) \<or> (192 \<le> n \<and> n \<le> 214) \<or> (216 \<le> n \<and> n \<le> 222))"

fun lower_cp :: "char \<Rightarrow> char" where
  "lower_cp (Char b0 b1 b2 b3 b4 b5 b6 b7) =
     (if isupper_cp (Char b0 b1 b2 b3 b4 b5 b6 b7) then Char b0 b1 b2 b3 b4 True b6 b7
      else Char b0 b1 b2 b3 b4 b5 b6 b7)"

definition lower :: "string \<Rightarrow> string" where
  "lower s = map lower_cp s"

text \<open>\<open>s.split(sep)\<close> for a separator of one character: never the empty list.\<close>

fun split :: "string \<Rightarrow> char \<Rightarrow> string list" where
  "split [] sep = [[]]"
| "split (c # cs) sep =
     (if c = sep then [] # split cs sep
      else (case split cs sep of [] \<Rightarrow> [[c]] | p # ps \<Rightarrow> (c # p) # ps))"

section \<open>Python dictionaries\<close>

text \<open>
  A \<open>dict\<close> keeps its keys in insertion order, so it is an association list: iteration
  reads the list front to back, \<open>d[k] = v\<close> overwrites an existing key where it stands and
  appends a new one, and \<open>k in d\<close> and \<open>d.get(k)\<close> are \<^const>\<open>map_of\<close>. The keys of a
  dict are pairwise distinct, which \<open>dict_set\<close> preserves.
\<close>

type_synonym ('k, 'v) dict = "('k \<times> 'v) list"

fun dict_set :: "('k, 'v) dict \<Rightarrow> 'k \<Rightarrow> 'v \<Rightarrow> ('k, 'v) dict" where
  "dict_set [] k v = [(k, v)]"
| "dict_set ((k', v') # d) k v =
     (if k' = k then (k, v) # d else (k', v') # dict_set d k v)"

definition dict_in :: "'k \<Rightarrow> ('k, 'v) dict \<Rightarrow> bool" where
  "dict_in k d = (map_of d k \<noteq> None)"

definition dict_get :: "('k, 'v) dict \<Rightarrow> 'k \<Rightarrow> 'v \<Rightarrow> 'v" where
  "dict_get d k dflt = (case map_of d k of None \<Rightarrow> dflt | Some v \<Rightarrow> v)"

section \<open>Element trees\<close>

text \<open>
  An \<open>xml.etree.ElementTree.Element\<close>: tag, attributes (a dict), text, children and
  tail (the text that follows the element's end tag). Only the calls the script makes are
  modelled: \<open>get\<close>, \<open>set\<close>, \<open>find\<close>, \<open>findall\<close> with a tag (direct children) and
  with \<open>.//tag\<close> (all descendants, in document order), \<open>findtext\<close>, \<open>itertext\<close>,
  \<open>clear\<close> and \<open>SubElement\<close>.
\<close>

datatype elem =
  Elem (tag: string) (attrib: "(string, string) dict") (text': "string option")
       (children: "elem list") (tail: "string option")

datatype error = ParseError | ZeroDivisionError

definition get :: "elem \<Rightarrow> string \<Rightarrow> string option" where
  "get e key = map_of (attrib e) key"

definition truthy :: "string option \<Rightarrow> bool" where
  "truthy x = (case x of None \<Rightarrow> False | Some s \<Rightarrow> s \<noteq> [])"

definition find :: "elem \<Rightarrow> string \<Rightarrow> elem option" where
  "find e t = List.find (\<lambda>c. tag c = t) (children e)"

definition findall :: "elem \<Rightarrow> string \<Rightarrow> elem list" where
  "findall e t = filter (\<lambda>c. tag c = t) (children e)"

fun iter :: "elem \<Rightarrow> elem list" where
  "iter (Elem t a x cs y) = Elem t a x cs y # concat (map iter cs)"

definition findall_desc :: "elem \<Rightarrow> string \<Rightarrow> elem list" where
  "findall_desc e t = filter (\<lambda>c. tag c = t) (concat (map iter (children e)))"

definition findtext :: "elem \<Rightarrow> string \<Rightarrow> string \<Rightarrow> string" where
  "findtext e t dflt =
     (case find e t of
        None \<Rightarrow> dflt
      | Some c \<Rightarrow> (case text' c of None \<Rightarrow> [] | Some s \<Rightarrow> s))"

fun itertext :: "elem \<Rightarrow> string list" where
  "itertext (Elem t a x cs y) =
     (if truthy x then [case x of None \<Rightarrow> [] | Some s \<Rightarrow> s] else []) @
     concat (map (\<lambda>e. itertext e @
                    (if truthy (tail e) then [case tail e of None \<Rightarrow> [] | Some s \<Rightarrow> s] else []))
                 cs)"

fun set_text :: "elem \<Rightarrow> string option \<Rightarrow> elem" where
  "set_text (Elem t a x cs y) s = Elem t a s cs y"

fun set_attrib :: "elem \<Rightarrow> string \<Rightarrow> string \<Rightarrow> elem" where
  "set_attrib (Elem t a x cs y) key v = Elem t (dict_set a key v) x cs y"

fun set_children :: "elem \<Rightarrow> elem list \<Rightarrow> elem" where
  "set_children (Elem t a x cs y) cs' = Elem t a x cs' y"

fun append_child :: "elem \<Rightarrow> elem \<Rightarrow> elem" where
  "append_child (Elem t a x cs y) c = Elem t a x (cs @ [c]) y"

fun clear :: "elem \<Rightarrow> elem" where
  "clear (Elem t a x cs y) = Elem t [] None [] None"

text \<open>A change made through the reference that \<open>find\<close> returned: it reaches the first
  child that satisfies the test, where it stands.\<close>

fun update_first :: "(elem \<Rightarrow> bool) \<Rightarrow> (elem \<Rightarrow> elem) \<Rightarrow> elem list \<Rightarrow> elem list" where
  "update_first P f [] = []"
| "update_first P f (c # cs) = (if P c then f c # cs else c # update_first P f cs)"

text \<open>
  The serialised text of an element stands in the model as the tree that was written,
  its tail included (\<open>tostring\<close> writes the tail of the element it is given). Reading it
  back with \<open>fromstring\<close> fails when anything but XML white space follows the root's end
  tag, and otherwise gives the root without a tail.
\<close>

type_synonym xml = elem

definition tostring :: "elem \<Rightarrow> xml" where
  "tostring e = e"

definition xml_space :: "char \<Rightarrow> bool" where
  "xml_space c = (c = CHR '' '' \<or> c = CHR 0x09 \<or> c = CHR 0x0A \<or> c = CHR 0x0D)"

fun fromstring :: "xml \<Rightarrow> error + elem" where
  "fromstring (Elem t a x cs y) =
     (case y of
        None \<Rightarrow> Inr (Elem t a x cs None)
      | Some s \<Rightarrow> if list_all xml_space s then Inr (Elem t a x cs None) else Inl ParseError)"

section \<open>Data model\<close>

record NixPackage =
  attr :: string
  version :: string
  desktop_ids :: "string list"
  store_path :: "string option"

record FlathubComponent =
  id' :: string
  name :: string
  summary :: string
  description :: string
  categories :: "string list"
  keywords' :: "string list"
  screenshots :: "string list"
  icon_url :: "string option"
  homepage :: "string option"
  license :: "string option"
  developer_name :: "string option"
  raw_xml :: xml

record Mapping =
  flathub_id :: string
  nixpkgs_attr :: string
  nixpkgs_version :: string
  confidence :: real

section \<open>The curated table\<close>

definition build_desktop_id_mapping :: "(string, string) dict" where
  "build_desktop_id_mapping = [
    (''org.mozilla.firefox'', ''firefox''),
    (''org.mozilla.Thunderbird'', ''thunderbird''),
    (''com.google.Chrome'', ''google-chrome''),
    (''org.chromium.Chromium'', ''chromium''),
    (''org.gnome.Epiphany'', ''epiphany''),
    (''io.gitlab.librewolf-community'', ''librewolf''),
    (''com.brave.Browser'', ''brave''),
    (''com.vivaldi.Vivaldi'', ''vivaldi''),
    (''org.signal.Signal'', ''signal-desktop''),
    (''com.discordapp.Discord'', ''discord''),
    (''org.telegram.desktop'', ''telegram-desktop''),
    (''im.riot.Riot'', ''element-desktop''),
    (''io.element.Element'', ''element-desktop''),
    (''com.slack.Slack'', ''slack''),
    (''us.zoom.Zoom'', ''zoom-us''),
    (''com.microsoft.Teams'', ''teams''),
    (''org.videolan.VLC'', ''vlc''),
    (''io.mpv.Mpv'', ''mpv''),
    (''org.gnome.Totem'', ''totem''),
    (''org.kde.elisa'', ''elisa''),
    (''com.spotify.Client'', ''spotify''),
    (''org.audacityteam.Audacity'', ''audacity''),
    (''org.kde.kdenlive'', ''kdenlive''),
    (''org.blender.Blender'', ''blender''),
    (''org.gimp.GIMP'', ''gimp''),
    (''org.inkscape.Inkscape'', ''inkscape''),
    (''org.kde.krita'', ''krita''),
    (''org.darktable.darktable'', ''darktable''),
    (''org.shotcut.Shotcut'', ''shotcut''),
    (''com.obsproject.Studio'', ''obs-studio''),
    (''org.gnome.Cheese'', ''cheese''),
    (''org.libreoffice.LibreOffice'', ''libreoffice''),
    (''org.onlyoffice.desktopeditors'', ''onlyoffice-bin''),
    (''md.obsidian.Obsidian'', ''obsidian''),
    (''com.logseq.Logseq'', ''logseq''),
    (''org.gnome.Evince'', ''evince''),
    (''org.kde.okular'', ''okular''),
    (''org.gnome.Calculator'', ''gnome-calculator''),
    (''org.gnome.Calendar'', ''gnome-calendar''),
    (''org.gnome.Contacts'', ''gnome-contacts''),
    (''org.gnome.gedit'', ''gedit''),
    (''org.gnome.TextEditor'', ''gnome-text-editor''),
    (''com.visualstudio.code'', ''vscode''),
    (''com.vscodium.codium'', ''vscodium''),
    (''org.gnome.Builder'', ''gnome-builder''),
    (''io.neovim.nvim'', ''neovim''),
    (''org.gnu.emacs'', ''emacs''),
    (''com.jetbrains.IntelliJ-IDEA-Community'', ''jetbrains.idea-community''),
    (''com.jetbrains.PyCharm-Community'', ''jetbrains.pycharm-community''),
    (''org.kde.kate'', ''kate''),
    (''com.valvesoftware.Steam'', ''steam''),
    (''net.lutris.Lutris'', ''lutris''),
    (''org.prismlauncher.PrismLauncher'', ''prismlauncher''),
    (''com.heroicgameslauncher.hgl'', ''heroic''),
    (''org.gnome.FileRoller'', ''file-roller''),
    (''org.gnome.Nautilus'', ''nautilus''),
    (''org.kde.dolphin'', ''dolphin''),
    (''org.gnome.Terminal'', ''gnome-terminal''),
    (''org.kde.konsole'', ''konsole''),
    (''com.alacritty.Alacritty'', ''alacritty''),
    (''org.wezfurlong.wezterm'', ''wezterm''),
    (''org.gnome.Settings'', ''gnome-control-center''),
    (''org.kde.systemsettings'', ''plasma5Packages.systemsettings''),
    (''org.gnome.tweaks'', ''gnome-tweaks''),
    (''org.gnome.Extensions'', ''gnome-extensions-app''),
    (''com.github.tchx84.Flatseal'', ''flatseal''),
    (''org.keepassxc.KeePassXC'', ''keepassxc''),
    (''com.bitwarden.desktop'', ''bitwarden-desktop''),
    (''org.gnome.Boxes'', ''gnome-boxes''),
    (''org.qbittorrent.qBittorrent'', ''qbittorrent''),
    (''org.transmissionbt.Transmission'', ''transmission-gtk''),
    (''org.remmina.Remmina'', ''remmina''),
    (''org.gnome.DiskUtility'', ''gnome-disk-utility''),
    (''org.gnome.baobab'', ''baobab''),
    (''org.gnome.SystemMonitor'', ''gnome-system-monitor''),
    (''org.kde.ksysguard'', ''ksysguard''),
    (''org.freedesktop.GnomeAbrt'', ''gnome-abrt''),
    (''org.gnome.Fractal'', ''fractal''),
    (''org.gnome.Lollypop'', ''lollypop''),
    (''org.gnome.Rhythmbox3'', ''rhythmbox''),
    (''org.gnome.Maps'', ''gnome-maps''),
    (''org.gnome.Weather'', ''gnome-weather''),
    (''org.gnome.clocks'', ''gnome-clocks''),
    (''org.gnome.Logs'', ''gnome-logs''),
    (''org.gnome.Photos'', ''gnome-photos''),
    (''org.gnome.Shotwell'', ''shotwell''),
    (''org.flameshot.Flameshot'', ''flameshot''),
    (''com.calibre_ebook.calibre'', ''calibre''),
    (''org.kde.gwenview'', ''gwenview''),
    (''org.kde.ark'', ''ark''),
    (''org.kde.spectacle'', ''spectacle''),
    (''org.kde.kcalc'', ''kcalc''),
    (''org.freedesktop.Piper'', ''piper''),
    (''org.nickvision.tubeconverter'', ''parabolic''),
    (''io.bassi.Amberol'', ''amberol''),
    (''org.gnome.Podcasts'', ''gnome-podcasts''),
    (''de.haeckerfelix.Shortwave'', ''shortwave''),
    (''com.github.wwmm.easyeffects'', ''easyeffects''),
    (''org.pipewire.Helvum'', ''helvum''),
    (''org.pulseaudio.pavucontrol'', ''pavucontrol''),
    (''com.uploadedlobster.peek'', ''peek''),
    (''org.kde.kcolorchooser'', ''kcolorchooser''),
    (''nl.hjdskes.gcolor3'', ''gcolor3''),
    (''org.gnome.font-viewer'', ''gnome-font-viewer''),
    (''org.gnome.Characters'', ''gnome-characters''),
    (''com.belmoussaoui.Decoder'', ''decoder''),
    (''com.belmoussaoui.Authenticator'', ''authenticator''),
    (''com.rafaelmardojai.Blanket'', ''blanket''),
    (''io.github.celluloid_player.Celluloid'', ''celluloid''),
    (''com.github.rafostar.Clapper'', ''clapper''),
    (''org.pitivi.Pitivi'', ''pitivi''),
    (''fr.handbrake.ghb'', ''handbrake''),
    (''org.openshot.OpenShot'', ''openshot-qt''),
    (''org.musescore.MuseScore'', ''musescore''),
    (''org.ardour.Ardour'', ''ardour''),
    (''org.kde.kwave'', ''kwave''),
    (''org.freecadweb.FreeCAD'', ''freecad''),
    (''org.openscad.OpenSCAD'', ''openscad''),
    (''org.kicad.kicad'', ''kicad''),
    (''org.gnome.GHex'', ''ghex''),
    (''org.wireshark.Wireshark'', ''wireshark'')]"

section \<open>Matching\<close>

text \<open>
  The body of the loop of \<open>create_mapping\<close> for one component identity: the direct
  mapping through the curated table, which ends the iteration when it appends, and
  the match by name that is tried otherwise.
\<close>

definition direct_mapping ::
  "string \<Rightarrow> (string, NixPackage) dict \<Rightarrow> (string, string) dict \<Rightarrow> Mapping option" where
  "direct_mapping fid nixpkgs_packages desktop_id_mapping =
     (case map_of desktop_id_mapping fid of
        None \<Rightarrow> None
      | Some a \<Rightarrow>
          (case map_of nixpkgs_packages a of
             None \<Rightarrow> None
           | Some pkg \<Rightarrow>
               Some \<lparr>flathub_id = fid, nixpkgs_attr = a,
                     nixpkgs_version = version pkg, confidence = 1.0\<rparr>))"

definition app_name_of :: "string \<Rightarrow> string" where
  "app_name_of fid =
     (let id_parts = split fid (CHR ''.'')
      in if id_parts \<noteq> [] then lower (last id_parts) else [])"

definition fuzzy_mapping :: "string \<Rightarrow> (string, NixPackage) dict \<Rightarrow> Mapping option" where
  "fuzzy_mapping fid nixpkgs_packages =
     (let app_name = app_name_of fid
      in if app_name \<noteq> [] \<and> dict_in app_name nixpkgs_packages
         then (case map_of nixpkgs_packages app_name of
                 None \<Rightarrow> None
               | Some pkg \<Rightarrow>
                   Some \<lparr>flathub_id = fid, nixpkgs_attr = app_name,
                         nixpkgs_version = version pkg, confidence = 0.8\<rparr>)
         else None)"

definition match_component ::
  "string \<Rightarrow> (string, NixPackage) dict \<Rightarrow> (string, string) dict \<Rightarrow> Mapping list" where
  "match_component fid nixpkgs_packages desktop_id_mapping =
     (case direct_mapping fid nixpkgs_packages desktop_id_mapping of
        Some m \<Rightarrow> [m]
      | None \<Rightarrow>
          (case fuzzy_mapping fid nixpkgs_packages of
             Some m \<Rightarrow> [m]
           | None \<Rightarrow> []))"

fun create_mapping_loop ::
  "(string, 'c) dict \<Rightarrow> (string, NixPackage) dict \<Rightarrow> (string, string) dict \<Rightarrow>
   Mapping list \<Rightarrow> Mapping list" where
  "create_mapping_loop [] nixpkgs_packages desktop_id_mapping mappings = mappings"
| "create_mapping_loop ((fid, component) # rest) nixpkgs_packages desktop_id_mapping mappings =
     create_mapping_loop rest nixpkgs_packages desktop_id_mapping
       (mappings @ match_component fid nixpkgs_packages desktop_id_mapping)"

definition create_mapping ::
  "(string, 'c) dict \<Rightarrow> (string, NixPackage) dict \<Rightarrow> (string, string) dict \<Rightarrow> Mapping list" where
  "create_mapping flathub_components nixpkgs_packages desktop_id_mapping =
     create_mapping_loop flathub_components nixpkgs_packages desktop_id_mapping []"

text \<open>The loop of \<open>main\<close> that adds every mapped attribute the package dict lacks.\<close>

fun add_mapped_attrs ::
  "(string, string) dict \<Rightarrow> (string, NixPackage) dict \<Rightarrow> (string, NixPackage) dict" where
  "add_mapped_attrs [] nixpkgs_packages = nixpkgs_packages"
| "add_mapped_attrs ((desktop_id, a) # rest) nixpkgs_packages =
     add_mapped_attrs rest
       (if \<not> dict_in a nixpkgs_packages
        then dict_set nixpkgs_packages a
               \<lparr>attr = a, version = ''unknown'', desktop_ids = [], store_path = None\<rparr>
        else nixpkgs_packages)"

definition main_mappings ::
  "(string, 'c) dict \<Rightarrow> (string, NixPackage) dict \<Rightarrow> Mapping list" where
  "main_mappings flathub_components scanned =
     (let desktop_id_mapping = build_desktop_id_mapping;
          nixpkgs_packages = add_mapped_attrs desktop_id_mapping scanned
      in create_mapping flathub_components nixpkgs_packages desktop_id_mapping)"

section \<open>Parsing the feed\<close>

definition FLATHUB_ICONS_BASE_URL :: string where
  "FLATHUB_ICONS_BASE_URL = ''https://dl.flathub.org/repo/appstream/x86_64/icons''"

text \<open>The loop over the entry's \<open>icon\<close> children: it stops at the first one that is of
  type remote or cached and has a text.\<close>

fun icon_loop :: "elem list \<Rightarrow> string option" where
  "icon_loop [] = None"
| "icon_loop (icon # rest) =
     (if get icon ''type'' = Some ''remote'' \<and> truthy (text' icon) then text' icon
      else if get icon ''type'' = Some ''cached'' \<and> truthy (text' icon)
      then Some (FLATHUB_ICONS_BASE_URL @ ''/128x128/'' @
                 (case text' icon of None \<Rightarrow> [] | Some s \<Rightarrow> s))
      else icon_loop rest)"

fun homepage_loop :: "elem list \<Rightarrow> string option" where
  "homepage_loop [] = None"
| "homepage_loop (url # rest) =
     (if get url ''type'' = Some ''homepage'' then text' url else homepage_loop rest)"

definition texts_of :: "elem list \<Rightarrow> string list" where
  "texts_of es = map (\<lambda>e. case text' e of None \<Rightarrow> [] | Some s \<Rightarrow> s)
                    (filter (\<lambda>e. truthy (text' e)) es)"

text \<open>The body of the loop of \<open>parse_flathub_appstream\<close> for one \<open>component\<close> element:
  \<open>None\<close> where the source says \<open>continue\<close>, otherwise the key and the record stored
  under it.\<close>

definition parse_component :: "elem \<Rightarrow> (string \<times> FlathubComponent) option" where
  "parse_component component =
     (let comp_type = dict_get (attrib component) ''type'' ''''
      in if \<not> (comp_type = ''desktop'' \<or> comp_type = ''desktop-application'') then None
         else
           let comp_id = strip (findtext component ''id'' '''')
           in if comp_id = [] then None
              else
                let base_id = removesuffix comp_id ''.desktop''
                in Some (base_id,
                     \<lparr>id' = base_id,
                      name = findtext component ''name'' '''',
                      summary = findtext component ''summary'' '''',
                      description =
                        (case find component ''description'' of
                           None \<Rightarrow> []
                         | Some desc_elem \<Rightarrow> strip (concat (itertext desc_elem))),
                      categories = texts_of (findall_desc component ''category''),
                      keywords' = texts_of (findall_desc component ''keyword''),
                      screenshots =
                        texts_of (filter (\<lambda>e. get e ''type'' = Some ''source'')
                          (concat (map (\<lambda>s. findall s ''image'')
                                       (findall_desc component ''screenshot'')))),
                      icon_url = icon_loop (findall component ''icon''),
                      homepage = homepage_loop (findall component ''url''),
                      license = Some (findtext component ''project_license'' ''''),
                      developer_name = Some (findtext component ''developer_name'' ''''),
                      raw_xml = tostring component\<rparr>))"

fun parse_loop ::
  "elem list \<Rightarrow> (string, FlathubComponent) dict \<Rightarrow> (string, FlathubComponent) dict" where
  "parse_loop [] components = components"
| "parse_loop (component # rest) components =
     parse_loop rest
       (case parse_component component of
          None \<Rightarrow> components
        | Some (base_id, c) \<Rightarrow> dict_set components base_id c)"

definition parse_flathub_appstream :: "elem \<Rightarrow> (string, FlathubComponent) dict" where
  "parse_flathub_appstream feed_root = parse_loop (findall_desc feed_root ''component'') []"

section \<open>Transforming a matched component\<close>

definition set_pkgname :: "elem \<Rightarrow> string \<Rightarrow> elem" where
  "set_pkgname elem a =
     (case find elem ''pkgname'' of
        None \<Rightarrow> append_child elem (Elem ''pkgname'' [] (Some a) [] None)
      | Some pkgname \<Rightarrow>
          set_children elem
            (update_first (\<lambda>c. tag c = ''pkgname'') (\<lambda>c. set_text c (Some a)) (children elem)))"

definition new_releases :: "elem \<Rightarrow> string \<Rightarrow> elem" where
  "new_releases releases v =
     append_child (clear releases) (Elem ''release'' [(''version'', v)] None [] None)"

definition set_releases :: "elem \<Rightarrow> string \<Rightarrow> elem" where
  "set_releases elem v =
     (case find elem ''releases'' of
        None \<Rightarrow> append_child elem (new_releases (Elem ''releases'' [] None [] None) v)
      | Some releases \<Rightarrow>
          set_children elem
            (update_first (\<lambda>c. tag c = ''releases'') (\<lambda>c. new_releases c v) (children elem)))"

definition icon_ext :: "FlathubComponent \<Rightarrow> string" where
  "icon_ext component =
     (if truthy (icon_url component) \<and>
         (case icon_url component of None \<Rightarrow> False | Some u \<Rightarrow> endswith u ''.svg'')
      then ''.svg'' else ''.png'')"

definition rewrite_icon :: "FlathubComponent \<Rightarrow> elem \<Rightarrow> elem" where
  "rewrite_icon component icon =
     (let icon_type = dict_get (attrib icon) ''type'' ''''
      in if icon_type = ''remote'' \<or> icon_type = ''cached''
         then set_text
                (set_attrib (set_attrib (set_attrib icon ''type'' ''cached'') ''width'' ''128'')
                   ''height'' ''128'')
                (Some (id' component @ icon_ext component))
         else icon)"

definition rewrite_icons :: "FlathubComponent \<Rightarrow> elem \<Rightarrow> elem" where
  "rewrite_icons component elem =
     set_children elem
       (map (\<lambda>c. if tag c = ''icon'' then rewrite_icon component c else c) (children elem))"

definition transform_component_xml :: "FlathubComponent \<Rightarrow> Mapping \<Rightarrow> error + xml" where
  "transform_component_xml component mapping =
     (case fromstring (raw_xml component) of
        Inl e \<Rightarrow> Inl e
      | Inr elem \<Rightarrow>
          Inr (tostring
                (rewrite_icons component
                  (set_releases (set_pkgname elem (nixpkgs_attr mapping))
                     (nixpkgs_version mapping)))))"

section \<open>The catalog and the report\<close>

text \<open>
  One iteration of the loop of \<open>generate_appstream_catalog\<close>: the mapping is skipped when
  its component is not in the dict, a failed transformation is reported and leaves the
  catalog as it is, and otherwise the transformed element is appended. Fetching the icon
  file touches the file system only and is left out.
\<close>

datatype catalog_step = Skipped | Failed error | Appended elem

definition catalog_step ::
  "Mapping \<Rightarrow> (string, FlathubComponent) dict \<Rightarrow> catalog_step" where
  "catalog_step mapping flathub_components =
     (case map_of flathub_components (flathub_id mapping) of
        None \<Rightarrow> Skipped
      | Some component \<Rightarrow>
          (case transform_component_xml component mapping of
             Inl e \<Rightarrow> Failed e
           | Inr transformed_xml \<Rightarrow>
               (case fromstring transformed_xml of
                  Inl e \<Rightarrow> Failed e
                | Inr component_elem \<Rightarrow> Appended component_elem)))"

definition generate_appstream_catalog ::
  "Mapping list \<Rightarrow> (string, FlathubComponent) dict \<Rightarrow> elem" where
  "generate_appstream_catalog mappings flathub_components =
     Elem ''components'' [(''version'', ''0.16''), (''origin'', ''nixpkgs-flathub'')] None
       (concat (map (\<lambda>m. case catalog_step m flathub_components of
                            Appended e \<Rightarrow> [e] | _ \<Rightarrow> [])
                    mappings))
       None"

record MappingRow = Mapping +
  flathub_name :: string

record Report =
  total_flathub_components :: nat
  total_mappings :: nat
  coverage_percent :: real
  mappings :: "MappingRow list"
  unmapped_popular :: "(string \<times> string) list"

definition placeholder :: FlathubComponent where
  "placeholder =
     \<lparr>id' = [], name = [], summary = [], description = [], categories = [], keywords' = [],
      screenshots = [], icon_url = None, homepage = None, license = None,
      developer_name = None, raw_xml = Elem [] [] None [] None\<rparr>"

definition truediv :: "nat \<Rightarrow> nat \<Rightarrow> error + real" where
  "truediv a b = (if b = 0 then Inl ZeroDivisionError else Inr (real a / real b))"

definition report_row :: "Mapping \<Rightarrow> (string, FlathubComponent) dict \<Rightarrow> MappingRow" where
  "report_row m flathub_components =
     \<lparr>flathub_id = flathub_id m, nixpkgs_attr = nixpkgs_attr m,
      nixpkgs_version = nixpkgs_version m, confidence = confidence m,
      flathub_name = name (dict_get flathub_components (flathub_id m) placeholder)\<rparr>"

definition unmapped_sample ::
  "Mapping list \<Rightarrow> (string, FlathubComponent) dict \<Rightarrow> (string \<times> string) list" where
  "unmapped_sample ms flathub_components =
     take 20
       (map (\<lambda>(comp_id, comp). (id' comp, name comp))
          (filter (\<lambda>(comp_id, comp). \<not> list_ex (\<lambda>m. flathub_id m = comp_id) ms)
             (take 100 flathub_components)))"

definition generate_mapping_report ::
  "Mapping list \<Rightarrow> (string, FlathubComponent) dict \<Rightarrow> error + Report" where
  "generate_mapping_report ms flathub_components =
     (case (if flathub_components \<noteq> []
            then (case truediv (length ms) (length flathub_components) of
                    Inl e \<Rightarrow> Inl e
                  | Inr q \<Rightarrow> Inr (q * 100))
            else Inr 0) of
        Inl e \<Rightarrow> Inl e
      | Inr percent \<Rightarrow>
          Inr \<lparr>total_flathub_components = length flathub_components,
               total_mappings = length ms,
               coverage_percent = percent,
               mappings = map (\<lambda>m. report_row m flathub_components) ms,
               unmapped_popular = unmapped_sample ms flathub_components\<rparr>)"


section \<open>A sample run\<close>

text \<open>A feed of three desktop entries and a runtime, two scanned packages and a table
  of two entries, on which the results below are evaluated.\<close>

definition sample_feed :: elem where
  "sample_feed =
     Elem ''components'' [(''version'', ''0.8'')] None
       [Elem ''component'' [(''type'', ''desktop-application'')] None
          [Elem ''id'' [] (Some ''org.mozilla.firefox.desktop'') [] None,
           Elem ''name'' [] (Some ''Firefox'') [] None,
           Elem ''icon'' [(''type'', ''remote'')] (Some ''https://example.org/firefox.svg'') [] None]
          None,
        Elem ''component'' [(''type'', ''desktop'')] None
          [Elem ''id'' [] (Some ''org.example.Htop'') [] None,
           Elem ''name'' [] (Some ''Htop'') [] None]
          None,
        Elem ''component'' [(''type'', ''desktop'')] None
          [Elem ''id'' [] (Some ''com.example.Unknown'') [] None,
           Elem ''name'' [] (Some ''Unknown'') [] None]
          None,
        Elem ''component'' [(''type'', ''runtime'')] None
          [Elem ''id'' [] (Some ''org.freedesktop.Platform'') [] None]
          None]
       None"

definition sample_packages :: "(string, NixPackage) dict" where
  "sample_packages =
     [(''firefox'', \<lparr>attr = ''firefox'', version = ''128.0'', desktop_ids = [], store_path = None\<rparr>),
      (''htop'', \<lparr>attr = ''htop'', version = ''3.3.0'', desktop_ids = [], store_path = None\<rparr>)]"

definition sample_table :: "(string, string) dict" where
  "sample_table = [(''org.mozilla.firefox'', ''firefox''), (''org.videolan.VLC'', ''vlc'')]"


section \<open>Strings and dicts\<close>

lemma endswith_suffix: "endswith s suf \<longleftrightarrow> suffix suf s"
proof
  assume "endswith s suf"
  then have "s = take (length s - length suf) s @ suf"
    by (metis append_take_drop_id endswith_def)
  then show "suffix suf s"
    by (rule suffixI)
next
  assume "suffix suf s"
  then obtain p where "s = p @ suf"
    by (auto simp: suffix_def)
  then show "endswith s suf"
    by (simp add: endswith_def)
qed

lemma lower_cp_code_point:
  assumes "isupper_cp c"
  shows "(of_char (lower_cp c) :: nat) = of_char c + 32"
proof (cases c)
  case (Char b0 b1 b2 b3 b4 b5 b6 b7)
  with assms have "\<not> b5"
    by (cases b0; cases b1; cases b2; cases b3; cases b4; cases b5; cases b6; cases b7)
       (simp_all add: isupper_cp_def)
  with Char assms show ?thesis
    by simp
qed

lemma split_nonempty: "split s sep \<noteq> []"
  by (cases s) (simp_all split: list.splits)

lemma split_concat: "concat (map (\<lambda>p. p @ [sep]) (split s sep)) = s @ [sep]"
  by (induction s) (auto split: list.splits)

lemma split_no_sep: "p \<in> set (split s sep) \<Longrightarrow> sep \<notin> set p"
  by (induction s arbitrary: p) (auto split: if_splits list.splits)


section \<open>The matcher\<close>

lemma map_of_dict_set: "map_of (dict_set d k v) = (map_of d)(k \<mapsto> v)"
  by (induction d k v rule: dict_set.induct) auto



lemma create_mapping_loop_acc:
  "create_mapping_loop comps pk dm acc =
     acc @ concat (map (\<lambda>kc. match_component (fst kc) pk dm) comps)"
  by (induction comps pk dm acc rule: create_mapping_loop.induct) simp_all

lemma create_mapping_concat:
  "create_mapping comps pk dm = concat (map (\<lambda>kc. match_component (fst kc) pk dm) comps)"
  by (simp add: create_mapping_def create_mapping_loop_acc)

lemma direct_mapping_SomeD:
  "direct_mapping k pk dm = Some m \<Longrightarrow> flathub_id m = k \<and> confidence m = 1"
  by (auto simp: direct_mapping_def split: option.splits)

lemma fuzzy_mapping_SomeD:
  "fuzzy_mapping k pk = Some m \<Longrightarrow> flathub_id m = k \<and> confidence m = 0.8"
  by (auto simp: fuzzy_mapping_def Let_def split: option.splits if_splits)

lemma match_component_cases:
  "match_component k pk dm = [] \<or>
   (\<exists>m. match_component k pk dm = [m] \<and> direct_mapping k pk dm = Some m) \<or>
   (\<exists>m. match_component k pk dm = [m] \<and> direct_mapping k pk dm = None \<and>
        fuzzy_mapping k pk = Some m)"
  by (cases "direct_mapping k pk dm"; cases "fuzzy_mapping k pk")
     (simp_all add: match_component_def)

lemma match_component_id:
  "m \<in> set (match_component k pk dm) \<Longrightarrow> flathub_id m = k"
  using match_component_cases [of k pk dm]
  by (auto dest: direct_mapping_SomeD fuzzy_mapping_SomeD)

lemma match_component_confidence:
  "m \<in> set (match_component k pk dm) \<Longrightarrow> confidence m = 1 \<or> confidence m = 0.8"
  using match_component_cases [of k pk dm]
  by (auto dest: direct_mapping_SomeD fuzzy_mapping_SomeD)

lemma filter_other_component:
  "k' \<noteq> k \<Longrightarrow> filter (\<lambda>m. flathub_id m = k) (match_component k' pk dm) = []"
  by (auto simp: filter_empty_conv dest: match_component_id)

lemma filter_same_component:
  "filter (\<lambda>m. flathub_id m = k) (match_component k pk dm) = match_component k pk dm"
  by (auto simp: filter_id_conv dest: match_component_id)

lemma filter_absent_key:
  "k \<notin> fst ` set comps \<Longrightarrow>
   filter (\<lambda>m. flathub_id m = k) (concat (map (\<lambda>kc. match_component (fst kc) pk dm) comps)) = []"
  by (induction comps) (auto simp: filter_other_component)

lemma filter_create_mapping:
  "distinct (map fst comps) \<Longrightarrow> k \<in> fst ` set comps \<Longrightarrow>
   filter (\<lambda>m. flathub_id m = k) (create_mapping comps pk dm) = match_component k pk dm"
  unfolding create_mapping_concat
proof (induction comps)
  case Nil
  then show ?case by simp
next
  case (Cons kc comps)
  show ?case
  proof (cases "fst kc = k")
    case True
    with Cons.prems have "k \<notin> fst ` set comps" by auto
    with True show ?thesis
      by (simp add: filter_same_component filter_absent_key)
  next
    case False
    with Cons show ?thesis
      by (auto simp: filter_other_component)
  qed
qed

lemma add_mapped_attrs_lookup:
  "map_of (add_mapped_attrs dm pk) a =
     (case map_of pk a of
        Some p \<Rightarrow> Some p
      | None \<Rightarrow> if a \<in> snd ` set dm
                then Some \<lparr>attr = a, version = ''unknown'', desktop_ids = [], store_path = None\<rparr>
                else None)"
proof (induction dm pk rule: add_mapped_attrs.induct)
  case (1 pk)
  then show ?case by (simp split: option.splits)
next
  case (2 desktop_id b rest pk)
  then show ?case
    by (auto simp: dict_in_def map_of_dict_set split: option.splits)
qed

lemma set_create_mapping:
  "set (create_mapping comps pk dm) = (\<Union>kc \<in> set comps. set (match_component (fst kc) pk dm))"
  by (simp add: create_mapping_concat)

lemma subseq_create_mapping:
  "subseq (map flathub_id (create_mapping comps pk dm)) (map fst comps)"
  unfolding create_mapping_concat
proof (induction comps)
  case Nil
  then show ?case by simp
next
  case (Cons kc comps)
  have "map flathub_id (match_component (fst kc) pk dm) = [] \<or>
        map flathub_id (match_component (fst kc) pk dm) = [fst kc]"
    using match_component_cases [of "fst kc" pk dm]
    by (auto dest: direct_mapping_SomeD fuzzy_mapping_SomeD)
  with Cons show ?case
    by auto
qed

lemma distinct_create_mapping:
  "distinct (map fst comps) \<Longrightarrow> distinct (map flathub_id (create_mapping comps pk dm))"
proof -
  obtain N where "map flathub_id (create_mapping comps pk dm) = nths (map fst comps) N"
    using subseq_create_mapping [of comps pk dm] by (auto simp: subseq_conv_nths)
  then show "distinct (map fst comps) \<Longrightarrow> ?thesis"
    by (simp add: distinct_nthsI)
qed


text \<open>
  Claim C1. Before the matching, the loop of \<open>main\<close> gives every attribute that is a value
  of the curated table and not a key of the scanned packages a stub package of version
  \<open>unknown\<close>. Hence a component whose identity is a key of the table gets exactly one
  mapping: to the attribute the table names, with confidence 1.0 and the scanned version
  of that attribute, or \<open>unknown\<close> where the scan did not have it. The theorem holds for
  every table; \<open>main\<close> runs it on \<^const>\<open>build_desktop_id_mapping\<close>.
\<close>

theorem curated_match_after_seeding:
  assumes "distinct (map fst comps)"
    and "k \<in> fst ` set comps"
    and "map_of dm k = Some a"
  shows "(\<forall>b \<in> snd ` set dm. \<not> dict_in b scanned \<longrightarrow>
            map_of (add_mapped_attrs dm scanned) b =
              Some \<lparr>attr = b, version = ''unknown'', desktop_ids = [], store_path = None\<rparr>) \<and>
         filter (\<lambda>m. flathub_id m = k) (create_mapping comps (add_mapped_attrs dm scanned) dm) =
           [\<lparr>flathub_id = k, nixpkgs_attr = a,
             nixpkgs_version = (case map_of scanned a of
                                  None \<Rightarrow> ''unknown'' | Some pkg \<Rightarrow> version pkg),
             confidence = 1.0\<rparr>]"
proof (intro conjI ballI impI)
  fix b assume "b \<in> snd ` set dm" and "\<not> dict_in b scanned"
  then show "map_of (add_mapped_attrs dm scanned) b =
      Some \<lparr>attr = b, version = ''unknown'', desktop_ids = [], store_path = None\<rparr>"
    by (simp add: add_mapped_attrs_lookup dict_in_def)
next
  from assms(3) have "(k, a) \<in> set dm"
    by (rule map_of_SomeD)
  then have a: "a \<in> snd ` set dm"
    by force
  have "direct_mapping k (add_mapped_attrs dm scanned) dm =
      Some \<lparr>flathub_id = k, nixpkgs_attr = a,
            nixpkgs_version = (case map_of scanned a of
                                 None \<Rightarrow> ''unknown'' | Some pkg \<Rightarrow> version pkg),
            confidence = 1.0\<rparr>"
    using assms(3) a
    by (simp add: direct_mapping_def add_mapped_attrs_lookup split: option.splits)
  then have "match_component k (add_mapped_attrs dm scanned) dm =
      [\<lparr>flathub_id = k, nixpkgs_attr = a,
        nixpkgs_version = (case map_of scanned a of
                             None \<Rightarrow> ''unknown'' | Some pkg \<Rightarrow> version pkg),
        confidence = 1.0\<rparr>]"
    by (simp add: match_component_def)
  with assms(1,2) show "filter (\<lambda>m. flathub_id m = k)
      (create_mapping comps (add_mapped_attrs dm scanned) dm) =
      [\<lparr>flathub_id = k, nixpkgs_attr = a,
        nixpkgs_version = (case map_of scanned a of
                             None \<Rightarrow> ''unknown'' | Some pkg \<Rightarrow> version pkg),
        confidence = 1.0\<rparr>]"
    by (simp add: filter_create_mapping)
qed

lemma firefox_in_table:
  "map_of build_desktop_id_mapping ''org.mozilla.firefox'' = Some ''firefox''"
  by (simp add: build_desktop_id_mapping_def)

text \<open>C1 at the first entry of the table, with no scanned package at all.\<close>

theorem curated_match_after_seeding_witness:
  "filter (\<lambda>m. flathub_id m = ''org.mozilla.firefox'')
     (main_mappings [(''org.mozilla.firefox'', ()), (''com.example.Unknown'', ())] []) =
   [\<lparr>flathub_id = ''org.mozilla.firefox'', nixpkgs_attr = ''firefox'',
     nixpkgs_version = ''unknown'', confidence = 1.0\<rparr>]"
  using curated_match_after_seeding
    [of "[(''org.mozilla.firefox'', ()), (''com.example.Unknown'', ())]"
        "''org.mozilla.firefox''" build_desktop_id_mapping "''firefox''" "[]"]
  by (simp add: firefox_in_table main_mappings_def)


text \<open>
  Claim C2. For a component whose identity is a key of the curated table: when the
  attribute the table names is a key of the package dict, the component's only mapping is
  the one to that attribute, with that package's version and confidence 1.0; when it is
  not, nothing fails and the component gets what the match by name gives, no curated
  mapping.
\<close>

theorem curated_rule_and_fallthrough:
  assumes "distinct (map fst comps)"
    and "k \<in> fst ` set comps"
    and "map_of dm k = Some a"
  shows "(\<forall>pkg. map_of pk a = Some pkg \<longrightarrow>
            filter (\<lambda>m. flathub_id m = k) (create_mapping comps pk dm) =
              [\<lparr>flathub_id = k, nixpkgs_attr = a, nixpkgs_version = version pkg,
                confidence = 1.0\<rparr>]) \<and>
         (map_of pk a = None \<longrightarrow>
            filter (\<lambda>m. flathub_id m = k) (create_mapping comps pk dm) =
              (case fuzzy_mapping k pk of None \<Rightarrow> [] | Some m \<Rightarrow> [m]))"
  using assms
  by (simp add: filter_create_mapping match_component_def direct_mapping_def
           split: option.splits)

text \<open>C2 on a curated hit, and on a curated key whose attribute is missing while the
  name matches.\<close>

theorem curated_rule_and_fallthrough_witness:
  "filter (\<lambda>m. flathub_id m = ''org.videolan.VLC'')
     (create_mapping [(''org.videolan.VLC'', ())]
        [(''vlc'', \<lparr>attr = ''vlc'', version = ''3.0.20'', desktop_ids = [], store_path = None\<rparr>)]
        [(''org.videolan.VLC'', ''vlc'')]) =
   [\<lparr>flathub_id = ''org.videolan.VLC'', nixpkgs_attr = ''vlc'', nixpkgs_version = ''3.0.20'',
     confidence = 1.0\<rparr>] \<and>
   filter (\<lambda>m. flathub_id m = ''org.gnome.Calculator'')
     (create_mapping [(''org.gnome.Calculator'', ())]
        [(''calculator'', \<lparr>attr = ''calculator'', version = ''2.1'', desktop_ids = [], store_path = None\<rparr>)]
        [(''org.gnome.Calculator'', ''gnome-calculator'')]) =
   [\<lparr>flathub_id = ''org.gnome.Calculator'', nixpkgs_attr = ''calculator'', nixpkgs_version = ''2.1'',
     confidence = 0.8\<rparr>]"
  using curated_rule_and_fallthrough
    [of "[(''org.videolan.VLC'', ())]" "''org.videolan.VLC''"
        "[(''org.videolan.VLC'', ''vlc'')]" "''vlc''"
        "[(''vlc'', \<lparr>attr = ''vlc'', version = ''3.0.20'', desktop_ids = [], store_path = None\<rparr>)]"]
    curated_rule_and_fallthrough
    [of "[(''org.gnome.Calculator'', ())]" "''org.gnome.Calculator''"
        "[(''org.gnome.Calculator'', ''gnome-calculator'')]" "''gnome-calculator''"
        "[(''calculator'', \<lparr>attr = ''calculator'', version = ''2.1'', desktop_ids = [], store_path = None\<rparr>)]"]
  by (simp add: fuzzy_mapping_def app_name_of_def lower_def isupper_cp_def dict_in_def)

text \<open>
  Claim C3 as stated fails where the last segment is empty: the identity
  \<open>org.example.\<close> is in no curated table, its lower-cased last segment is the empty
  string, the empty string is a key of the package dict, and still no mapping is made,
  because the source tests \<open>app_name and app_name in nixpkgs_packages\<close>.
\<close>

theorem heuristic_rule_empty_segment_counterexample:
  "lower (last (split ''org.example.'' (CHR ''.''))) = [] \<and>
   dict_in [] [([], \<lparr>attr = [], version = ''1.0'', desktop_ids = [], store_path = None\<rparr>)] \<and>
   map_of ([] :: (string, string) dict) ''org.example.'' = None \<and>
   create_mapping [(''org.example.'', ())]
     [([], \<lparr>attr = [], version = ''1.0'', desktop_ids = [], store_path = None\<rparr>)] [] = []"
  by (simp add: create_mapping_def match_component_def direct_mapping_def fuzzy_mapping_def
        app_name_of_def lower_def dict_in_def)

text \<open>
  Claim C3, amended. For a component that the curated rule does not match (its identity
  is no key of the table, or the attribute the table names is no key of the package
  dict): split the identity on the dot, take the last segment and lower-case it. When
  that string is not empty and is a key of the package dict, the component's only mapping
  is the one to that string, with that package's version and confidence 0.8. When it is
  empty or no key, the component has no mapping.
\<close>

theorem heuristic_rule:
  assumes "distinct (map fst comps)"
    and "k \<in> fst ` set comps"
    and "\<forall>a. map_of dm k = Some a \<longrightarrow> map_of pk a = None"
  shows "(\<forall>pkg. lower (last (split k (CHR ''.''))) \<noteq> [] \<and>
               map_of pk (lower (last (split k (CHR ''.'')))) = Some pkg \<longrightarrow>
            filter (\<lambda>m. flathub_id m = k) (create_mapping comps pk dm) =
              [\<lparr>flathub_id = k, nixpkgs_attr = lower (last (split k (CHR ''.''))),
                nixpkgs_version = version pkg, confidence = 0.8\<rparr>]) \<and>
         (lower (last (split k (CHR ''.''))) = [] \<or>
          map_of pk (lower (last (split k (CHR ''.'')))) = None \<longrightarrow>
            filter (\<lambda>m. flathub_id m = k) (create_mapping comps pk dm) = [])"
proof -
  have ne: "split k (CHR ''.'') \<noteq> []"
    by (cases k) (simp_all split: list.splits)
  have "direct_mapping k pk dm = None"
    using assms(3) by (simp add: direct_mapping_def split: option.splits)
  then have "match_component k pk dm =
      (case fuzzy_mapping k pk of None \<Rightarrow> [] | Some m \<Rightarrow> [m])"
    by (simp add: match_component_def)
  with assms(1,2) ne show ?thesis
    by (auto simp: filter_create_mapping fuzzy_mapping_def app_name_of_def dict_in_def
             split: option.splits)
qed

text \<open>C3 on an identity whose last segment matches, and on one whose segment does not.\<close>

theorem heuristic_rule_witness:
  "filter (\<lambda>m. flathub_id m = ''org.videolan.VLC'')
     (create_mapping [(''org.videolan.VLC'', ()), (''com.example.Unknown'', ())]
        [(''vlc'', \<lparr>attr = ''vlc'', version = ''3.0.20'', desktop_ids = [], store_path = None\<rparr>)]
        []) =
   [\<lparr>flathub_id = ''org.videolan.VLC'', nixpkgs_attr = ''vlc'', nixpkgs_version = ''3.0.20'',
     confidence = 0.8\<rparr>] \<and>
   filter (\<lambda>m. flathub_id m = ''com.example.Unknown'')
     (create_mapping [(''org.videolan.VLC'', ()), (''com.example.Unknown'', ())]
        [(''vlc'', \<lparr>attr = ''vlc'', version = ''3.0.20'', desktop_ids = [], store_path = None\<rparr>)]
        []) = []"
  using heuristic_rule
    [of "[(''org.videolan.VLC'', ()), (''com.example.Unknown'', ())]" "''org.videolan.VLC''" "[]"
        "[(''vlc'', \<lparr>attr = ''vlc'', version = ''3.0.20'', desktop_ids = [], store_path = None\<rparr>)]"]
    heuristic_rule
    [of "[(''org.videolan.VLC'', ()), (''com.example.Unknown'', ())]" "''com.example.Unknown''" "[]"
        "[(''vlc'', \<lparr>attr = ''vlc'', version = ''3.0.20'', desktop_ids = [], store_path = None\<rparr>)]"]
  by (simp add: lower_def isupper_cp_def)

text \<open>
  Claim C4. Whatever the three inputs are, no two mappings of the result have the same
  Flathub identity, the identities of the result follow one another as the keys of the
  component dict do, and every confidence is 1.0 or 0.8.
\<close>

theorem matcher_output_invariants:
  assumes "distinct (map fst comps)"
  shows "distinct (map flathub_id (create_mapping comps pk dm)) \<and>
         subseq (map flathub_id (create_mapping comps pk dm)) (map fst comps) \<and>
         (\<forall>m \<in> set (create_mapping comps pk dm). confidence m = 1.0 \<or> confidence m = 0.8)"
  using assms
  by (auto simp: distinct_create_mapping subseq_create_mapping set_create_mapping
           dest: match_component_confidence)

text \<open>C4 on three components, of which the second has no mapping.\<close>

theorem matcher_output_invariants_witness:
  "create_mapping [(''org.videolan.VLC'', ()), (''com.example.Unknown'', ()), (''org.mozilla.firefox'', ())]
     [(''vlc'', \<lparr>attr = ''vlc'', version = ''3.0.20'', desktop_ids = [], store_path = None\<rparr>),
      (''firefox'', \<lparr>attr = ''firefox'', version = ''128.0'', desktop_ids = [], store_path = None\<rparr>)]
     [(''org.mozilla.firefox'', ''firefox'')] =
   [\<lparr>flathub_id = ''org.videolan.VLC'', nixpkgs_attr = ''vlc'', nixpkgs_version = ''3.0.20'',
     confidence = 0.8\<rparr>,
    \<lparr>flathub_id = ''org.mozilla.firefox'', nixpkgs_attr = ''firefox'', nixpkgs_version = ''128.0'',
     confidence = 1.0\<rparr>] \<and>
   distinct (map flathub_id (create_mapping
     [(''org.videolan.VLC'', ()), (''com.example.Unknown'', ()), (''org.mozilla.firefox'', ())]
     [(''vlc'', \<lparr>attr = ''vlc'', version = ''3.0.20'', desktop_ids = [], store_path = None\<rparr>),
      (''firefox'', \<lparr>attr = ''firefox'', version = ''128.0'', desktop_ids = [], store_path = None\<rparr>)]
     [(''org.mozilla.firefox'', ''firefox'')]))"
  using matcher_output_invariants
    [of "[(''org.videolan.VLC'', ()), (''com.example.Unknown'', ()), (''org.mozilla.firefox'', ())]"
     "[(''vlc'', \<lparr>attr = ''vlc'', version = ''3.0.20'', desktop_ids = [], store_path = None\<rparr>),
      (''firefox'', \<lparr>attr = ''firefox'', version = ''128.0'', desktop_ids = [], store_path = None\<rparr>)]"
     "[(''org.mozilla.firefox'', ''firefox'')]"]
  by (simp add: create_mapping_def match_component_def direct_mapping_def fuzzy_mapping_def
        app_name_of_def lower_def isupper_cp_def dict_in_def)


section \<open>The parser\<close>



lemma parse_component_SomeD:
  assumes "parse_component e = Some (k, c)"
  shows "(dict_get (attrib e) ''type'' '''' = ''desktop'' \<or>
          dict_get (attrib e) ''type'' '''' = ''desktop-application'') \<and>
         strip (findtext e ''id'' '''') \<noteq> [] \<and>
         k = removesuffix (strip (findtext e ''id'' '''')) ''.desktop'' \<and>
         id' c = k \<and>
         icon_url c = icon_loop (findall e ''icon'')"
  using assms
  by (auto simp: parse_component_def Let_def split: if_splits)

lemma parse_component_SomeI:
  assumes "dict_get (attrib e) ''type'' '''' = ''desktop'' \<or>
           dict_get (attrib e) ''type'' '''' = ''desktop-application''"
    and "strip (findtext e ''id'' '''') \<noteq> []"
  shows "\<exists>c. parse_component e =
           Some (removesuffix (strip (findtext e ''id'' '''')) ''.desktop'', c)"
  using assms
  by (auto simp: parse_component_def Let_def)





lemma icon_loop_find:
  "icon_loop icons =
     (case List.find (\<lambda>i. (get i ''type'' = Some ''remote'' \<or> get i ''type'' = Some ''cached'') \<and>
                           text' i \<noteq> None \<and> text' i \<noteq> Some []) icons of
        None \<Rightarrow> None
      | Some i \<Rightarrow>
          if get i ''type'' = Some ''remote'' then text' i
          else map_option (\<lambda>t. FLATHUB_ICONS_BASE_URL @ ''/128x128/'' @ t) (text' i))"
  by (induction icons) (auto simp: truthy_def split: option.splits)

text \<open>
  Claim C7, amended. The icon of a parsed component is decided by the first \<open>icon\<close>
  child of the entry, in document order, that is of type \<open>remote\<close> or \<open>cached\<close> and has
  a text: a remote one gives its text, a cached one gives the base URL, \<open>/128x128/\<close> and
  its text, and when there is no such child the icon is absent. A remote reference is
  taken before a cached one only when it comes first.
\<close>

theorem icon_first_usable_reference:
  assumes "parse_component e = Some (k, c)"
  shows "icon_url c =
     (case List.find (\<lambda>i. (get i ''type'' = Some ''remote'' \<or> get i ''type'' = Some ''cached'') \<and>
                           text' i \<noteq> None \<and> text' i \<noteq> Some []) (findall e ''icon'') of
        None \<Rightarrow> None
      | Some i \<Rightarrow>
          if get i ''type'' = Some ''remote'' then text' i
          else map_option (\<lambda>t. FLATHUB_ICONS_BASE_URL @ ''/128x128/'' @ t) (text' i))"
  using parse_component_SomeD [OF assms] icon_loop_find [of "findall e ''icon''"]
  by simp


lemmas et_defs = find_def findall_def findall_desc_def findtext_def get_def dict_get_def truthy_def
  tostring_def texts_of_def Let_def
lemmas str_defs = strip_def isspace_def removesuffix_def endswith_def lower_def isupper_cp_def



text \<open>
  Claim C7 as stated fails on an entry whose cached icon precedes its remote icon: the
  URL is composed from the cached reference although a remote one is present.
\<close>

theorem cached_icon_chosen_over_remote_counterexample:
  "map (icon_url \<circ> snd) (parse_flathub_appstream
     (Elem ''components'' [] None
        [Elem ''component'' [(''type'', ''desktop'')] None
           [Elem ''id'' [] (Some ''org.example.App'') [] None,
            Elem ''icon'' [(''type'', ''cached'')] (Some ''org.example.App.png'') [] None,
            Elem ''icon'' [(''type'', ''remote'')] (Some ''https://example.org/app.png'') [] None]
           None] None)) =
   [Some ''https://dl.flathub.org/repo/appstream/x86_64/icons/128x128/org.example.App.png'']"
  by (simp add: parse_flathub_appstream_def parse_component_def et_defs str_defs
        FLATHUB_ICONS_BASE_URL_def)

text \<open>C7 on an entry with a stock, a remote and a cached icon, in this order.\<close>

theorem icon_first_usable_reference_witness:
  "map_option (icon_url \<circ> snd) (parse_component
     (Elem ''component'' [(''type'', ''desktop'')] None
        [Elem ''id'' [] (Some ''org.example.App'') [] None,
         Elem ''icon'' [(''type'', ''stock'')] (Some ''app'') [] None,
         Elem ''icon'' [(''type'', ''remote'')] (Some ''https://example.org/app.png'') [] None,
         Elem ''icon'' [(''type'', ''cached'')] (Some ''org.example.App.png'') [] None]
        None)) = Some (Some ''https://example.org/app.png'')"
proof -
  let ?e = "Elem ''component'' [(''type'', ''desktop'')] None
        [Elem ''id'' [] (Some ''org.example.App'') [] None,
         Elem ''icon'' [(''type'', ''stock'')] (Some ''app'') [] None,
         Elem ''icon'' [(''type'', ''remote'')] (Some ''https://example.org/app.png'') [] None,
         Elem ''icon'' [(''type'', ''cached'')] (Some ''org.example.App.png'') [] None]
        None"
  have "\<exists>c. parse_component ?e =
      Some (removesuffix (strip (findtext ?e ''id'' '''')) ''.desktop'', c)"
    by (rule parse_component_SomeI) (simp_all add: et_defs str_defs)
  then obtain k c where *: "parse_component ?e = Some (k, c)"
    by blast
  from icon_first_usable_reference [OF *]
  have "icon_url c = Some ''https://example.org/app.png''"
    by (simp add: findall_def get_def)
  with * show ?thesis
    by simp
qed


section \<open>The transformer\<close>

lemma tag_set_text [simp]: "tag (set_text e s) = tag e"
  by (cases e) simp

lemma text_set_text [simp]: "text' (set_text e s) = s"
  by (cases e) simp

lemma attrib_set_text [simp]: "attrib (set_text e s) = attrib e"
  by (cases e) simp

lemma tag_set_attrib [simp]: "tag (set_attrib e k v) = tag e"
  by (cases e) simp

lemma attrib_set_attrib [simp]: "attrib (set_attrib e k v) = dict_set (attrib e) k v"
  by (cases e) simp

lemma children_set_children [simp]: "children (set_children e cs) = cs"
  by (cases e) simp

lemma children_append_child [simp]: "children (append_child e c) = children e @ [c]"
  by (cases e) simp


lemma tag_new_releases [simp]: "tag (new_releases r v) = tag r"
  by (cases r) (simp add: new_releases_def)

lemma tag_rewrite_icon [simp]: "tag (rewrite_icon c i) = tag i"
  by (simp add: rewrite_icon_def Let_def)
















section \<open>The sample run, evaluated\<close>

lemma sample_keys:
  "map fst (parse_flathub_appstream sample_feed) =
     [''org.mozilla.firefox'', ''org.example.Htop'', ''com.example.Unknown'']"
  by (simp add: sample_feed_def parse_flathub_appstream_def parse_component_def et_defs str_defs)

lemma sample_mappings:
  "create_mapping (parse_flathub_appstream sample_feed) sample_packages sample_table =
     [\<lparr>flathub_id = ''org.mozilla.firefox'', nixpkgs_attr = ''firefox'',
       nixpkgs_version = ''128.0'', confidence = 1.0\<rparr>,
      \<lparr>flathub_id = ''org.example.Htop'', nixpkgs_attr = ''htop'',
       nixpkgs_version = ''3.3.0'', confidence = 0.8\<rparr>]"
proof -
  have "create_mapping (parse_flathub_appstream sample_feed) sample_packages sample_table
      = concat (map (\<lambda>k. match_component k sample_packages sample_table)
          (map fst (parse_flathub_appstream sample_feed)))"
    by (simp add: create_mapping_concat comp_def)
  also have "\<dots> = [\<lparr>flathub_id = ''org.mozilla.firefox'', nixpkgs_attr = ''firefox'',
       nixpkgs_version = ''128.0'', confidence = 1.0\<rparr>,
      \<lparr>flathub_id = ''org.example.Htop'', nixpkgs_attr = ''htop'',
       nixpkgs_version = ''3.3.0'', confidence = 0.8\<rparr>]"
    unfolding sample_keys
    by (simp add: match_component_def direct_mapping_def fuzzy_mapping_def app_name_of_def
          dict_in_def sample_packages_def sample_table_def str_defs)
  finally show ?thesis .
qed


section \<open>Transformer examples, the report and the catalog\<close>






lemma generate_mapping_report_returns:
  "\<exists>r. generate_mapping_report ms comps = Inr r \<and>
        mappings r = map (\<lambda>m. report_row m comps) ms \<and>
        unmapped_popular r = unmapped_sample ms comps"
  by (simp add: generate_mapping_report_def truediv_def)

text \<open>
  Claim C9. The sample of unmapped components in the report has at most 20 entries; each
  is the identity and name of one of the first 100 components of the dict, and no mapping
  has that component's key as its Flathub identity.
\<close>

theorem unmatched_sample_bounds:
  "\<exists>r. generate_mapping_report ms comps = Inr r \<and>
        length (unmapped_popular r) \<le> 20 \<and>
        (\<forall>e \<in> set (unmapped_popular r).
           \<exists>kc \<in> set (take 100 comps).
             e = (id' (snd kc), name (snd kc)) \<and> fst kc \<notin> flathub_id ` set ms)"
proof -
  have "\<exists>kc \<in> set (take 100 comps).
          e = (id' (snd kc), name (snd kc)) \<and> fst kc \<notin> flathub_id ` set ms"
    if "e \<in> set (unmapped_sample ms comps)" for e
  proof -
    from that have "e \<in> set (map (\<lambda>(comp_id, comp). (id' comp, name comp))
          (filter (\<lambda>(comp_id, comp). \<not> list_ex (\<lambda>m. flathub_id m = comp_id) ms)
             (take 100 comps)))"
      unfolding unmapped_sample_def by (rule in_set_takeD)
    then obtain k c where "(k, c) \<in> set (take 100 comps)"
      and "\<not> list_ex (\<lambda>m. flathub_id m = k) ms" and "e = (id' c, name c)"
      by auto
    then show ?thesis
      by (intro bexI [of _ "(k, c)"]) (auto simp: list_ex_iff)
  qed
  moreover have "length (unmapped_sample ms comps) \<le> 20"
    by (simp add: unmapped_sample_def)
  moreover obtain r where "generate_mapping_report ms comps = Inr r"
    and "unmapped_popular r = unmapped_sample ms comps"
    using generate_mapping_report_returns by blast
  ultimately show ?thesis
    by auto
qed

text \<open>C9 on the sample run, where one component of the three has no mapping.\<close>

theorem unmatched_sample_bounds_witness:
  "\<exists>r. generate_mapping_report
          (create_mapping (parse_flathub_appstream sample_feed) sample_packages sample_table)
          (parse_flathub_appstream sample_feed) = Inr r \<and>
        length (unmapped_popular r) \<le> 20 \<and>
        unmapped_popular r = [(''com.example.Unknown'', ''Unknown'')]"
proof -
  from unmatched_sample_bounds
    [of "create_mapping (parse_flathub_appstream sample_feed) sample_packages sample_table"
        "parse_flathub_appstream sample_feed"]
  obtain r where r: "generate_mapping_report
          (create_mapping (parse_flathub_appstream sample_feed) sample_packages sample_table)
          (parse_flathub_appstream sample_feed) = Inr r"
    and l: "length (unmapped_popular r) \<le> 20"
    by blast
  have "unmapped_sample
          (create_mapping (parse_flathub_appstream sample_feed) sample_packages sample_table)
          (parse_flathub_appstream sample_feed) = [(''com.example.Unknown'', ''Unknown'')]"
    unfolding sample_mappings
    by (simp add: unmapped_sample_def sample_feed_def parse_flathub_appstream_def
          parse_component_def et_defs str_defs)
  with r have "unmapped_popular r = [(''com.example.Unknown'', ''Unknown'')]"
    by (auto simp: generate_mapping_report_def truediv_def split: if_splits)
  with r l show ?thesis
    by blast
qed

lemma create_mapping_ids:
  "m \<in> set (create_mapping comps pk dm) \<Longrightarrow> flathub_id m \<in> fst ` set comps"
  by (auto simp: set_create_mapping dest: match_component_id)

text \<open>
  Claim C10. The Flathub identity of every mapping that \<open>create_mapping\<close> returns is a
  key of the component dict it was given. So the catalog loop never skips such a mapping
  for a missing component, and the report finds the component under that key whatever
  default it is given: the name it prints is the name of that component.
\<close>

theorem correspondence_ids_are_component_keys:
  "\<forall>m \<in> set (create_mapping comps pk dm).
     flathub_id m \<in> fst ` set comps \<and>
     catalog_step m comps \<noteq> Skipped \<and>
     (\<exists>c. map_of comps (flathub_id m) = Some c \<and>
          (\<forall>dflt. dict_get comps (flathub_id m) dflt = c) \<and>
          flathub_name (report_row m comps) = name c)"
proof
  fix m assume "m \<in> set (create_mapping comps pk dm)"
  then have k: "flathub_id m \<in> fst ` set comps"
    by (rule create_mapping_ids)
  then obtain c where c: "map_of comps (flathub_id m) = Some c"
    by (metis map_of_eq_None_iff not_Some_eq)
  then have "catalog_step m comps \<noteq> Skipped"
    by (simp add: catalog_step_def split: sum.splits)
  with k c show "flathub_id m \<in> fst ` set comps \<and>
     catalog_step m comps \<noteq> Skipped \<and>
     (\<exists>c. map_of comps (flathub_id m) = Some c \<and>
          (\<forall>dflt. dict_get comps (flathub_id m) dflt = c) \<and>
          flathub_name (report_row m comps) = name c)"
    by (simp add: dict_get_def report_row_def)
qed

text \<open>C10 on the curated mapping of the sample run.\<close>

theorem correspondence_ids_are_component_keys_witness:
  "catalog_step
     \<lparr>flathub_id = ''org.mozilla.firefox'', nixpkgs_attr = ''firefox'',
      nixpkgs_version = ''128.0'', confidence = 1.0\<rparr>
     (parse_flathub_appstream sample_feed) \<noteq> Skipped \<and>
   flathub_name (report_row
     \<lparr>flathub_id = ''org.mozilla.firefox'', nixpkgs_attr = ''firefox'',
      nixpkgs_version = ''128.0'', confidence = 1.0\<rparr>
     (parse_flathub_appstream sample_feed)) = ''Firefox''"
proof -
  let ?m = "\<lparr>flathub_id = ''org.mozilla.firefox'', nixpkgs_attr = ''firefox'',
      nixpkgs_version = ''128.0'', confidence = 1.0\<rparr>"
  have "?m \<in> set (create_mapping (parse_flathub_appstream sample_feed) sample_packages sample_table)"
    by (simp add: sample_mappings)
  with correspondence_ids_are_component_keys
    [of "parse_flathub_appstream sample_feed" sample_packages sample_table]
  have "catalog_step ?m (parse_flathub_appstream sample_feed) \<noteq> Skipped"
    by blast
  moreover have "flathub_name (report_row ?m (parse_flathub_appstream sample_feed)) = ''Firefox''"
    by (simp add: report_row_def sample_feed_def parse_flathub_appstream_def
          parse_component_def et_defs str_defs)
  ultimately show ?thesis
    by blast
qed


end
